theory Spec2Isabelle
  imports
    Main
    "HOL-Library.Word"
    "HOL-Library.AList"
    "HOL-Library.Char_ord"
    "HOL-Library.List_Lexorder"
begin

unbundle bit_operations_syntax

section \<open>Strings, byte buffers and the JavaScript built-ins the service calls\<close>

text \<open>
  A JavaScript string is a sequence of UTF-16 code units. The model uses \<^typ>\<open>string\<close>,
  whose characters are the code units below 256 (the Latin-1 range); every built-in below is
  written to agree with JavaScript on that range. The order on strings is the lexicographic
  order on code units, which is what \<^verbatim>\<open>Array.prototype.sort()\<close> uses by default.
  A byte buffer (\<^verbatim>\<open>ArrayBuffer\<close>, \<^verbatim>\<open>Uint8Array\<close>) is a list of 8-bit words.
\<close>

type_synonym byte = "8 word"
type_synonym bytes = "byte list"

definition NL :: string where
  "NL = [CHR 0x0A]"

definition isDigit :: "char \<Rightarrow> bool" where
  "isDigit c \<longleftrightarrow> CHR ''0'' \<le> c \<and> c \<le> CHR ''9''"

definition isUpper :: "char \<Rightarrow> bool" where
  "isUpper c \<longleftrightarrow> CHR ''A'' \<le> c \<and> c \<le> CHR ''Z''"

definition isLower :: "char \<Rightarrow> bool" where
  "isLower c \<longleftrightarrow> CHR ''a'' \<le> c \<and> c \<le> CHR ''z''"

definition isAlnum :: "char \<Rightarrow> bool" where
  "isAlnum c \<longleftrightarrow> isDigit c \<or> isUpper c \<or> isLower c"

text \<open>\<^verbatim>\<open>String.prototype.toLowerCase\<close> on the Latin-1 range: \<^verbatim>\<open>A-Z\<close> and the accented
  capitals \<^verbatim>\<open>U+00C0..U+00DE\<close> (except the multiplication sign \<^verbatim>\<open>U+00D7\<close>) move up by 32.\<close>

definition lowerChar :: "char \<Rightarrow> char" where
  "lowerChar c =
     (if isUpper c \<or> (CHR 0xC0 \<le> c \<and> c \<le> CHR 0xDE \<and> c \<noteq> CHR 0xD7)
      then char_of (of_char c + (32::nat)) else c)"

definition toLowerCase :: "string \<Rightarrow> string" where
  "toLowerCase s = map lowerChar s"

text \<open>\<^verbatim>\<open>String.prototype.trim\<close>: the white space and line terminators below 256 are
  tab, line feed, vertical tab, form feed, carriage return, space and no-break space.\<close>

definition isSpace :: "char \<Rightarrow> bool" where
  "isSpace c \<longleftrightarrow> (CHR 0x09 \<le> c \<and> c \<le> CHR 0x0D) \<or> c = CHR 0x20 \<or> c = CHR 0xA0"

definition trim :: "string \<Rightarrow> string" where
  "trim s = rev (dropWhile isSpace (rev (dropWhile isSpace s)))"

text \<open>\<^verbatim>\<open>Array.prototype.join\<close>.\<close>

fun join :: "string \<Rightarrow> string list \<Rightarrow> string" where
  "join sep [] = []"
| "join sep [x] = x"
| "join sep (x # y # ys) = x @ sep @ join sep (y # ys)"

text \<open>\<^verbatim>\<open>String.prototype.split\<close> with a separator that matches one code unit
  (a character or a character class): the result always has at least one piece.\<close>

fun split :: "(char \<Rightarrow> bool) \<Rightarrow> string \<Rightarrow> string list" where
  "split p [] = [[]]"
| "split p (c # cs) =
     (if p c then [] # split p cs
      else (case split p cs of [] \<Rightarrow> [[c]] | w # ws \<Rightarrow> (c # w) # ws))"

definition startsWith :: "string \<Rightarrow> string \<Rightarrow> bool" where
  "startsWith s p \<longleftrightarrow> take (length p) s = p"

text \<open>\<^verbatim>\<open>String.prototype.replace\<close> with a global regular expression that is a literal
  text: every occurrence, scanning from the left, is replaced.\<close>

function replaceAll :: "string \<Rightarrow> string \<Rightarrow> string \<Rightarrow> string" where
  "replaceAll pat rep s =
     (if s = [] then []
      else if pat \<noteq> [] \<and> startsWith s pat then rep @ replaceAll pat rep (drop (length pat) s)
      else hd s # replaceAll pat rep (tl s))"
  by pat_completeness auto
termination
  by (relation "measure (\<lambda>(pat, rep, s). length s)") auto

declare replaceAll.simps [simp del]

text \<open>\<^verbatim>\<open>Number.prototype.toString()\<close> on an integer (below \<^verbatim>\<open>1e21\<close>, where JavaScript
  switches to exponent notation): the decimal digits, with a minus sign when negative.\<close>

function digits :: "nat \<Rightarrow> string" where
  "digits n = (if n < 10 then [''0123456789'' ! n] else digits (n div 10) @ [''0123456789'' ! (n mod 10)])"
  by pat_completeness auto
termination
  by (relation "measure id") auto

declare digits.simps [simp del]

definition number_toString :: "int \<Rightarrow> string" where
  "number_toString i = (if i < 0 then CHR ''-'' # digits (nat (- i)) else digits (nat i))"

text \<open>\<^verbatim>\<open>TextEncoder.encode\<close>: UTF-8. A code unit below 128 is one byte, one from 128 to 255
  is two bytes.\<close>

definition utf8_char :: "char \<Rightarrow> bytes" where
  "utf8_char c =
     (let n = (of_char c :: nat)
      in if n < 128 then [of_nat n] else [of_nat (192 + n div 64), of_nat (128 + n mod 64)])"

definition TextEncoder_encode :: "string \<Rightarrow> bytes" where
  "TextEncoder_encode s = concat (map utf8_char s)"

text \<open>\<^verbatim>\<open>encodeURIComponent\<close>: the unreserved characters \<^verbatim>\<open>A-Z a-z 0-9 - _ . ! ~ * ' ( )\<close>
  stay; every other code unit becomes the \<^verbatim>\<open>%XX\<close> escapes (upper-case hexadecimal) of its
  UTF-8 bytes.\<close>

definition uriUnreserved :: "char \<Rightarrow> bool" where
  "uriUnreserved c \<longleftrightarrow> isAlnum c \<or> c \<in> set ''-_.!~*'()''"

definition pctByte :: "nat \<Rightarrow> string" where
  "pctByte b = [CHR ''%'', ''0123456789ABCDEF'' ! (b div 16), ''0123456789ABCDEF'' ! (b mod 16)]"

definition encodeChar :: "char \<Rightarrow> string" where
  "encodeChar c =
     (let n = (of_char c :: nat)
      in if uriUnreserved c then [c]
         else if n < 128 then pctByte n
         else pctByte (192 + n div 64) @ pctByte (128 + n mod 64))"

definition encodeURIComponent :: "string \<Rightarrow> string" where
  "encodeURIComponent s = concat (map encodeChar s)"

section \<open>The presign engine (\<^verbatim>\<open>src/lib/presign.ts\<close>)\<close>

text \<open>
  The environment bindings of \<^verbatim>\<open>types.ts\<close> (the database binding is part of the world
  state, further down).
\<close>

record env =
  MASTER_PASSWORD :: string
  S3_ACCESS_KEY_ID :: string
  S3_SECRET_ACCESS_KEY :: string
  S3_BUCKET :: string
  S3_ENDPOINT :: string
  S3_REGION :: string

text \<open>
  The Web Crypto API is outside the repository: SHA-256 and HMAC-SHA256 are parameters
  (\<open>digest\<close> maps data to its hash, \<open>sign key data\<close> is the HMAC of \<open>data\<close> under the raw key),
  and so is the clock read by \<^verbatim>\<open>new Date()\<close>, given as the text that
  \<^verbatim>\<open>toISOString()\<close> returns for it.
\<close>

record crypto =
  digest :: "bytes \<Rightarrow> bytes"
  sign :: "bytes \<Rightarrow> bytes \<Rightarrow> bytes"

definition ALGORITHM :: string where
  "ALGORITHM = ''AWS4-HMAC-SHA256''"

definition SERVICE :: string where
  "SERVICE = ''s3''"

definition EXPIRES_SECONDS :: int where
  "EXPIRES_SECONDS = 3600"

text \<open>\<^verbatim>\<open>bufferToHex\<close>: two lower-case hexadecimal digits for each byte.\<close>

definition byteToHex :: "byte \<Rightarrow> string" where
  "byteToHex b = [''0123456789abcdef'' ! (unat b div 16), ''0123456789abcdef'' ! (unat b mod 16)]"

definition bufferToHex :: "bytes \<Rightarrow> string" where
  "bufferToHex buffer = concat (map byteToHex buffer)"

text \<open>\<^verbatim>\<open>formatAmzDate\<close>: \<^verbatim>\<open>replace(/[:-]|\.\d{3}/g, '')\<close> deletes every colon, every hyphen
  and every dot that is followed by three digits, together with the digits.\<close>

function stripIsoPunctuation :: "string \<Rightarrow> string" where
  "stripIsoPunctuation s =
     (case s of
        [] \<Rightarrow> []
      | c # cs \<Rightarrow>
          if c = CHR '':'' \<or> c = CHR ''-'' then stripIsoPunctuation cs
          else if c = CHR ''.'' \<and> 3 \<le> length cs \<and> list_all isDigit (take 3 cs)
               then stripIsoPunctuation (drop 3 cs)
          else c # stripIsoPunctuation cs)"
  by pat_completeness auto
termination
  by (relation "measure length") auto

declare stripIsoPunctuation.simps [simp del]

definition formatAmzDate :: "string \<Rightarrow> string" where
  "formatAmzDate isoText = stripIsoPunctuation isoText"

definition sha256Hex :: "crypto \<Rightarrow> string \<Rightarrow> string" where
  "sha256Hex C message = bufferToHex (digest C (TextEncoder_encode message))"

definition hmacSha256 :: "crypto \<Rightarrow> bytes \<Rightarrow> string \<Rightarrow> bytes" where
  "hmacSha256 C key message = sign C key (TextEncoder_encode message)"

definition hmacSha256Hex :: "crypto \<Rightarrow> bytes \<Rightarrow> string \<Rightarrow> string" where
  "hmacSha256Hex C key message = bufferToHex (hmacSha256 C key message)"

definition getSignatureKey :: "crypto \<Rightarrow> string \<Rightarrow> string \<Rightarrow> string \<Rightarrow> string \<Rightarrow> bytes" where
  "getSignatureKey C secretKey dateStamp region service =
     (let kDate = hmacSha256 C (TextEncoder_encode (''AWS4'' @ secretKey)) dateStamp;
          kRegion = hmacSha256 C kDate region;
          kService = hmacSha256 C kRegion service;
          kSigning = hmacSha256 C kService ''aws4_request''
      in kSigning)"

text \<open>
  A \<^verbatim>\<open>Record<string, string>\<close> is an association list in insertion order; writing a
  property replaces the value of a key that is present and appends a new key otherwise
  (\<^const>\<open>AList.update\<close>). \<open>obj_get\<close> is only applied to keys of the object.
\<close>

type_synonym obj = "(string \<times> string) list"

definition obj_keys :: "obj \<Rightarrow> string list" where
  "obj_keys ob = map fst ob"

definition obj_get :: "obj \<Rightarrow> string \<Rightarrow> string" where
  "obj_get ob k = (case map_of ob k of Some v \<Rightarrow> v | None \<Rightarrow> [])"

definition obj_spread :: "obj \<Rightarrow> obj \<Rightarrow> obj" where
  "obj_spread base extra = fold (\<lambda>(k, v) ob. AList.update k v ob) extra base"

text \<open>
  The \<^verbatim>\<open>URL\<close> class, reduced to the three parts the service touches. Serialisation is
  concatenation: the normalisations of the URL parser (lower-casing the host, resolving dot
  segments, escaping an apostrophe in the query) change nothing in a URL built from a
  normalised host name, an object key without dot segments and credentials without
  apostrophes, and they are not modelled.
\<close>

record url =
  url_origin :: string
  url_pathname :: string
  url_search :: string

definition url_toString :: "url \<Rightarrow> string" where
  "url_toString u =
     url_origin u @ url_pathname u @ (if url_search u = [] then [] else CHR ''?'' # url_search u)"

text \<open>The locals of \<^verbatim>\<open>createPresignedUrl\<close>, one definition for each; \<open>now\<close> is the text
  that \<^verbatim>\<open>toISOString()\<close> returns for \<^verbatim>\<open>new Date()\<close>.\<close>

definition presign_amzDate :: "string \<Rightarrow> string" where
  "presign_amzDate now = formatAmzDate now"

definition presign_dateStamp :: "string \<Rightarrow> string" where
  "presign_dateStamp now = take 8 (presign_amzDate now)"

definition presign_host :: "env \<Rightarrow> string" where
  "presign_host e = S3_BUCKET e @ ''.'' @ S3_ENDPOINT e"

definition presign_credentialScope :: "env \<Rightarrow> string \<Rightarrow> string" where
  "presign_credentialScope e now =
     presign_dateStamp now @ ''/'' @ S3_REGION e @ ''/'' @ SERVICE @ ''/aws4_request''"

definition presign_credential :: "env \<Rightarrow> string \<Rightarrow> string" where
  "presign_credential e now = S3_ACCESS_KEY_ID e @ ''/'' @ presign_credentialScope e now"

definition presign_allHeaders :: "env \<Rightarrow> obj \<Rightarrow> obj" where
  "presign_allHeaders e signedHeaders = obj_spread [(''host'', presign_host e)] signedHeaders"

definition presign_sortedHeaderKeys :: "env \<Rightarrow> obj \<Rightarrow> string list" where
  "presign_sortedHeaderKeys e signedHeaders = sort (obj_keys (presign_allHeaders e signedHeaders))"

definition presign_canonicalHeaders :: "env \<Rightarrow> obj \<Rightarrow> string" where
  "presign_canonicalHeaders e signedHeaders =
     join NL
       (map (\<lambda>key. toLowerCase key @ '':'' @ trim (obj_get (presign_allHeaders e signedHeaders) key))
          (presign_sortedHeaderKeys e signedHeaders))
     @ NL"

definition presign_signedHeadersList :: "env \<Rightarrow> obj \<Rightarrow> string" where
  "presign_signedHeadersList e signedHeaders =
     join '';'' (map toLowerCase (presign_sortedHeaderKeys e signedHeaders))"

definition presign_queryParams :: "env \<Rightarrow> string \<Rightarrow> obj \<Rightarrow> obj" where
  "presign_queryParams e now signedHeaders =
     [(''X-Amz-Algorithm'', ALGORITHM),
      (''X-Amz-Credential'', presign_credential e now),
      (''X-Amz-Date'', presign_amzDate now),
      (''X-Amz-Expires'', number_toString EXPIRES_SECONDS),
      (''X-Amz-SignedHeaders'', presign_signedHeadersList e signedHeaders)]"

definition presign_canonicalQueryString :: "env \<Rightarrow> string \<Rightarrow> obj \<Rightarrow> string" where
  "presign_canonicalQueryString e now signedHeaders =
     join ''&''
       (map (\<lambda>key. encodeURIComponent key @ ''=''
                    @ encodeURIComponent (obj_get (presign_queryParams e now signedHeaders) key))
          (sort (obj_keys (presign_queryParams e now signedHeaders))))"

definition presign_canonicalUri :: "string \<Rightarrow> string" where
  "presign_canonicalUri objectKey = ''/'' @ replaceAll ''%2F'' ''/'' (encodeURIComponent objectKey)"

definition presign_canonicalRequest :: "env \<Rightarrow> string \<Rightarrow> string \<Rightarrow> string \<Rightarrow> obj \<Rightarrow> string" where
  "presign_canonicalRequest e now method objectKey signedHeaders =
     join NL
       [method,
        presign_canonicalUri objectKey,
        presign_canonicalQueryString e now signedHeaders,
        presign_canonicalHeaders e signedHeaders,
        presign_signedHeadersList e signedHeaders,
        ''UNSIGNED-PAYLOAD'']"

definition presign_stringToSign :: "crypto \<Rightarrow> env \<Rightarrow> string \<Rightarrow> string \<Rightarrow> string \<Rightarrow> obj \<Rightarrow> string" where
  "presign_stringToSign C e now method objectKey signedHeaders =
     join NL
       [ALGORITHM,
        presign_amzDate now,
        presign_credentialScope e now,
        sha256Hex C (presign_canonicalRequest e now method objectKey signedHeaders)]"

definition presign_signingKey :: "crypto \<Rightarrow> env \<Rightarrow> string \<Rightarrow> bytes" where
  "presign_signingKey C e now =
     getSignatureKey C (S3_SECRET_ACCESS_KEY e) (presign_dateStamp now) (S3_REGION e) SERVICE"

definition presign_signature :: "crypto \<Rightarrow> env \<Rightarrow> string \<Rightarrow> string \<Rightarrow> string \<Rightarrow> obj \<Rightarrow> string" where
  "presign_signature C e now method objectKey signedHeaders =
     hmacSha256Hex C (presign_signingKey C e now)
       (presign_stringToSign C e now method objectKey signedHeaders)"

definition presign_url :: "crypto \<Rightarrow> env \<Rightarrow> string \<Rightarrow> string \<Rightarrow> string \<Rightarrow> obj \<Rightarrow> url" where
  "presign_url C e now method objectKey signedHeaders =
     \<lparr>url_origin = ''https://'' @ presign_host e,
      url_pathname = presign_canonicalUri objectKey,
      url_search = presign_canonicalQueryString e now signedHeaders @ ''&X-Amz-Signature=''
                   @ presign_signature C e now method objectKey signedHeaders\<rparr>"

definition createPresignedUrl :: "crypto \<Rightarrow> env \<Rightarrow> string \<Rightarrow> string \<Rightarrow> string \<Rightarrow> obj \<Rightarrow> string" where
  "createPresignedUrl C e now method objectKey signedHeaders =
     url_toString (presign_url C e now method objectKey signedHeaders)"

definition putHeaders :: "string \<Rightarrow> int \<Rightarrow> obj" where
  "putHeaders contentType contentLength =
     [(''content-type'', contentType), (''content-length'', number_toString contentLength)]"

definition createPresignedPutUrl :: "crypto \<Rightarrow> env \<Rightarrow> string \<Rightarrow> string \<Rightarrow> string \<Rightarrow> int \<Rightarrow> string" where
  "createPresignedPutUrl C e now objectKey contentType contentLength =
     createPresignedUrl C e now ''PUT'' objectKey (putHeaders contentType contentLength)"

definition createPresignedGetUrl :: "crypto \<Rightarrow> env \<Rightarrow> string \<Rightarrow> string \<Rightarrow> string" where
  "createPresignedGetUrl C e now objectKey = createPresignedUrl C e now ''GET'' objectKey []"

definition createPresignedDeleteUrl :: "crypto \<Rightarrow> env \<Rightarrow> string \<Rightarrow> string \<Rightarrow> string" where
  "createPresignedDeleteUrl C e now objectKey = createPresignedUrl C e now ''DELETE'' objectKey []"


section \<open>Requests, responses and the world the handlers run in\<close>

datatype json =
    JNull
  | JBool bool
  | JNum int
  | JStr string
  | JArr "json list"
  | JObj "(string \<times> json) list"

text \<open>A response body is a JSON document (before \<^verbatim>\<open>JSON.stringify\<close>), a byte stream or
  absent.\<close>

datatype body = NoBody | JsonBody json | StreamBody bytes

record response =
  resp_status :: int
  resp_headers :: obj
  resp_body :: body

text \<open>The body of a request after \<^verbatim>\<open>request.json()\<close>, typed as the interfaces of
  \<^verbatim>\<open>types.ts\<close> declare it. An absent field reads as the falsy value of its type (the
  empty string, zero), which the handlers treat the same way.\<close>

record json_body =
  body_filename :: string
  body_content_type :: string
  body_total_bytes :: int
  body_checksum :: string
  body_id :: string

text \<open>\<open>req_json\<close> is \<open>Inl message\<close> when \<^verbatim>\<open>request.json()\<close> rejects.\<close>

record request =
  req_method :: string
  req_url :: url
  req_headers :: obj
  req_json :: "string + json_body"

text \<open>\<^verbatim>\<open>Headers.get\<close>: header names compare without regard to case.\<close>

definition headers_get :: "obj \<Rightarrow> string \<Rightarrow> string option" where
  "headers_get hs name = map_of (map (\<lambda>(k, v). (toLowerCase k, v)) hs) (toLowerCase name)"

definition headers_set :: "obj \<Rightarrow> string \<Rightarrow> string \<Rightarrow> obj" where
  "headers_set hs name v = AList.update name v hs"

datatype media_status = Pending | Complete | Failed

text \<open>A row of the \<^verbatim>\<open>media\<close> table (\<^verbatim>\<open>MediaRecord\<close>).\<close>

record media_record =
  rec_id :: string
  rec_object_key :: string
  rec_filename :: string
  rec_content_type :: string
  rec_total_bytes :: int
  rec_checksum :: "string option"
  rec_status :: media_status
  rec_created_at :: string
  rec_confirmed_at :: "string option"

text \<open>The outgoing \<^verbatim>\<open>fetch\<close> to the object store, and what comes back.\<close>

record fetch_request =
  fr_url :: string
  fr_method :: string
  fr_headers :: obj

record upstream_response =
  up_status :: int
  up_statusText :: string
  up_headers :: obj
  up_body :: bytes

definition up_ok :: "upstream_response \<Rightarrow> bool" where
  "up_ok r \<longleftrightarrow> 200 \<le> up_status r \<and> up_status r \<le> 299"

text \<open>
  Everything a handler reads from outside during one request: the Web Crypto primitives, the
  clock, the object store behind \<^verbatim>\<open>fetch\<close> (\<open>Inl message\<close> when the call throws), the
  value of \<^verbatim>\<open>crypto.randomUUID()\<close>, the bytes of \<^verbatim>\<open>crypto.getRandomValues\<close>, the clock
  of the database, and whether the one writing statement of the request throws for a reason
  of the database service itself (a handler runs at most one).
\<close>

record platform =
  pf_crypto :: crypto
  pf_now :: string
  pf_fetch :: "fetch_request \<Rightarrow> string + upstream_response"
  pf_randomUUID :: string
  pf_randomValues :: bytes
  pf_datetime_now :: string
  pf_d1_write_throws :: bool

text \<open>The state that outlives a request: the rows of the table and the default cache, keyed
  by the URL of a \<^verbatim>\<open>GET\<close> request.\<close>

record world =
  db :: "media_record list"
  cache :: "string \<Rightarrow> response option"

subsection \<open>\<^verbatim>\<open>src/lib/response.ts\<close>\<close>

definition NOT_FOUND_BODY :: json where
  "NOT_FOUND_BODY = JObj [(''error'', JStr ''Not found'')]"

definition notFound :: response where
  "notFound =
     \<lparr>resp_status = 404,
      resp_headers = [(''Content-Type'', ''application/json'')],
      resp_body = JsonBody NOT_FOUND_BODY\<rparr>"

definition jsonResponse :: "json \<Rightarrow> int \<Rightarrow> response" where
  "jsonResponse data st =
     \<lparr>resp_status = st,
      resp_headers = [(''Content-Type'', ''application/json'')],
      resp_body = JsonBody data\<rparr>"

subsection \<open>\<^verbatim>\<open>src/lib/auth.ts\<close>\<close>

text \<open>The comparison loop of \<^verbatim>\<open>timingSafeEqual\<close>: the bytes of the first hash are combined
  with the bytes of the second at the same index (a missing one reads as 0 under \<^verbatim>\<open>^\<close>).\<close>

fun xorFold :: "byte \<Rightarrow> bytes \<Rightarrow> bytes \<Rightarrow> byte" where
  "xorFold result [] bView = result"
| "xorFold result (a # aView) [] = xorFold (result OR (a XOR 0)) aView []"
| "xorFold result (a # aView) (b # bView) = xorFold (result OR (a XOR b)) aView bView"

definition timingSafeEqual :: "platform \<Rightarrow> string \<Rightarrow> string \<Rightarrow> bool" where
  "timingSafeEqual P a b =
     (let aBytes = TextEncoder_encode a;
          bBytes = TextEncoder_encode b
      in if length aBytes \<noteq> length bBytes then False
         else
           let keyMaterial = pf_randomValues P;
               aHash = sign (pf_crypto P) keyMaterial aBytes;
               bHash = sign (pf_crypto P) keyMaterial bBytes
           in xorFold 0 aHash bHash = 0)"

definition verifyAuth :: "platform \<Rightarrow> env \<Rightarrow> request \<Rightarrow> bool" where
  "verifyAuth P e request =
     (case headers_get (req_headers request) ''Authorization'' of
        None \<Rightarrow> False
      | Some authHeader \<Rightarrow>
          if authHeader = [] then False
          else if \<not> startsWith authHeader ''Bearer '' then False
          else timingSafeEqual P (drop 7 authHeader) (MASTER_PASSWORD e))"

subsection \<open>\<^verbatim>\<open>src/routes/media.ts\<close>\<close>

definition MAX_RANGE_BYTES :: int where
  "MAX_RANGE_BYTES = 50 * 1024 * 1024"

definition CACHE_TTL :: int where
  "CACHE_TTL = 30 * 24 * 60 * 60"

text \<open>\<^verbatim>\<open>rangeSpec.match(/^(\d*)-(\d*)$/)\<close>: the longest run of digits, a hyphen, and digits to
  the end; the result is the two captured groups.\<close>

definition matchRangeSpec :: "string \<Rightarrow> (string \<times> string) option" where
  "matchRangeSpec rangeSpec =
     (let startStr = takeWhile isDigit rangeSpec
      in case dropWhile isDigit rangeSpec of
           [] \<Rightarrow> None
         | c # endStr \<Rightarrow>
             if c = CHR ''-'' \<and> list_all isDigit endStr then Some (startStr, endStr) else None)"

text \<open>
  \<^verbatim>\<open>parseInt(s, 10)\<close>: leading white space, an optional sign, then the longest run of
  decimal digits; \<open>None\<close> stands for \<^verbatim>\<open>NaN\<close>. Numbers are integers here: a JavaScript
  number is exact up to \<^verbatim>\<open>2^53\<close>, and a longer digit string, which JavaScript rounds,
  compares with every object size below \<^verbatim>\<open>2^53\<close> as its exact value does.
\<close>

definition digitValue :: "char \<Rightarrow> int" where
  "digitValue c = of_char c - 48"

definition decimalValue :: "string \<Rightarrow> int" where
  "decimalValue ds = foldl (\<lambda>acc c. 10 * acc + digitValue c) 0 ds"

definition parseInt :: "string \<Rightarrow> int option" where
  "parseInt s =
     (let t = dropWhile isSpace s;
          negative = (t \<noteq> [] \<and> hd t = CHR ''-'');
          u = (if t \<noteq> [] \<and> (hd t = CHR ''-'' \<or> hd t = CHR ''+'') then tl t else t);
          ds = takeWhile isDigit u
      in if ds = [] then None
         else Some (if negative then - decimalValue ds else decimalValue ds))"

definition parseRangeHeader :: "string \<Rightarrow> int \<Rightarrow> (int \<times> int) option" where
  "parseRangeHeader rangeHeader totalBytes =
     (if \<not> startsWith rangeHeader ''bytes='' then None
      else
        let rangeSpec = drop 6 rangeHeader
        in if CHR '','' \<in> set rangeSpec then None
           else
             case matchRangeSpec rangeSpec of
               None \<Rightarrow> None
             | Some (startStr, endStr) \<Rightarrow>
                 (case
                    (if startStr = [] then
                       (case parseInt endStr of
                          None \<Rightarrow> None
                        | Some suffix \<Rightarrow>
                            if suffix \<le> 0 then None
                            else Some (Some (max 0 (totalBytes - suffix)), Some (totalBytes - 1)))
                     else if endStr = [] then Some (parseInt startStr, Some (totalBytes - 1))
                     else Some (parseInt startStr, parseInt endStr))
                  of
                    None \<Rightarrow> None
                  | Some (None, _) \<Rightarrow> None
                  | Some (Some start, None) \<Rightarrow> None
                  | Some (Some start, Some end0) \<Rightarrow>
                      if start < 0 \<or> end0 < start \<or> start \<ge> totalBytes then None
                      else
                        let end1 = min end0 (totalBytes - 1);
                            rangeLength = end1 - start + 1;
                            end2 = (if rangeLength > MAX_RANGE_BYTES
                                    then start + MAX_RANGE_BYTES - 1 else end1)
                        in Some (start, end2)))"

text \<open>The range text of a parsed range, as the template \<^verbatim>\<open>`${start}-${end}`\<close> writes it.\<close>

definition rangeText :: "int \<times> int \<Rightarrow> string" where
  "rangeText r = number_toString (fst r) @ ''-'' @ number_toString (snd r)"

text \<open>
  The first steps of \<^verbatim>\<open>handleGetMedia\<close>: the lookup of a complete record and the parsing
  of the \<^verbatim>\<open>Range\<close> header. \<open>None\<close> is the early \<^verbatim>\<open>notFound()\<close>; otherwise the record and
  the parsed range (\<open>None\<close> for \<^verbatim>\<open>null\<close>).
\<close>

definition getMedia_lookup :: "world \<Rightarrow> request \<Rightarrow> string \<Rightarrow> (media_record \<times> (int \<times> int) option) option" where
  "getMedia_lookup w request ident =
     (case find (\<lambda>r. rec_id r = ident \<and> rec_status r = Complete) (db w) of
        None \<Rightarrow> None
      | Some record \<Rightarrow>
          (case headers_get (req_headers request) ''Range'' of
             None \<Rightarrow> Some (record, None)
           | Some rangeHeader \<Rightarrow>
               if rangeHeader = [] then Some (record, None)
               else
                 (case parseRangeHeader rangeHeader (rec_total_bytes record) of
                    None \<Rightarrow> None
                  | Some parsedRange \<Rightarrow> Some (record, Some parsedRange))))"

text \<open>The cache key: the request URL with its query removed and, for a range request,
  the one parameter \<^verbatim>\<open>range=start-end\<close>.\<close>

definition getMedia_cacheKey :: "request \<Rightarrow> (int \<times> int) option \<Rightarrow> string" where
  "getMedia_cacheKey request parsedRange =
     (let cacheKeyUrl = (req_url request)\<lparr>url_search := []\<rparr>;
          cacheKeyUrl' = (case parsedRange of
                            None \<Rightarrow> cacheKeyUrl
                          | Some r \<Rightarrow> cacheKeyUrl\<lparr>url_search := ''range='' @ rangeText r\<rparr>)
      in url_toString cacheKeyUrl')"

text \<open>The result of \<^verbatim>\<open>handleGetMedia\<close>: the response, and the cache write handed to
  \<^verbatim>\<open>ctx.waitUntil\<close>, which the handler does not wait for.\<close>

record get_result =
  gr_response :: response
  gr_waitUntil_put :: "(string \<times> response) option"

definition getMedia_fetch :: "platform \<Rightarrow> env \<Rightarrow> media_record \<Rightarrow> (int \<times> int) option \<Rightarrow> fetch_request" where
  "getMedia_fetch P e record parsedRange =
     \<lparr>fr_url = createPresignedGetUrl (pf_crypto P) e (pf_now P) (rec_object_key record),
      fr_method = ''GET'',
      fr_headers = (case parsedRange of
                      None \<Rightarrow> []
                    | Some r \<Rightarrow> [(''Range'', ''bytes='' @ rangeText r)])\<rparr>"

definition getMedia_responseHeaders :: "media_record \<Rightarrow> upstream_response \<Rightarrow> obj" where
  "getMedia_responseHeaders record upstreamResponse =
     (let h0 = headers_set (headers_set [] ''Content-Type'' (rec_content_type record))
                 ''Accept-Ranges'' ''bytes'';
          h1 = (case headers_get (up_headers upstreamResponse) ''Content-Length'' of
                  None \<Rightarrow> h0
                | Some contentLength \<Rightarrow>
                    if contentLength = [] then h0 else headers_set h0 ''Content-Length'' contentLength);
          h2 = (case headers_get (up_headers upstreamResponse) ''Content-Range'' of
                  None \<Rightarrow> h1
                | Some contentRange \<Rightarrow>
                    if contentRange = [] then h1 else headers_set h1 ''Content-Range'' contentRange)
      in headers_set h2 ''Cache-Control''
           (''public, max-age='' @ number_toString CACHE_TTL @ '', immutable''))"

definition handleGetMedia :: "platform \<Rightarrow> env \<Rightarrow> world \<Rightarrow> request \<Rightarrow> string \<Rightarrow> get_result" where
  "handleGetMedia P e w request ident =
     (case getMedia_lookup w request ident of
        None \<Rightarrow> \<lparr>gr_response = notFound, gr_waitUntil_put = None\<rparr>
      | Some (record, parsedRange) \<Rightarrow>
          let cacheKey = getMedia_cacheKey request parsedRange
          in case cache w cacheKey of
               Some cached \<Rightarrow>
                 \<lparr>gr_response = cached\<lparr>resp_headers := headers_set (resp_headers cached) ''X-Worker-Cache'' ''HIT''\<rparr>,
                  gr_waitUntil_put = None\<rparr>
             | None \<Rightarrow>
                 (case pf_fetch P (getMedia_fetch P e record parsedRange) of
                    Inl err \<Rightarrow> \<lparr>gr_response = notFound, gr_waitUntil_put = None\<rparr>
                  | Inr upstreamResponse \<Rightarrow>
                      if \<not> up_ok upstreamResponse \<and> up_status upstreamResponse \<noteq> 206
                      then \<lparr>gr_response = notFound, gr_waitUntil_put = None\<rparr>
                      else
                        let response =
                              \<lparr>resp_status = up_status upstreamResponse,
                               resp_headers = getMedia_responseHeaders record upstreamResponse,
                               resp_body = StreamBody (up_body upstreamResponse)\<rparr>
                        in \<lparr>gr_response =
                              response\<lparr>resp_headers := headers_set (resp_headers response) ''X-Worker-Cache'' ''MISS''\<rparr>,
                            gr_waitUntil_put = Some (cacheKey, response)\<rparr>))"

definition deleteMedia_fetch :: "platform \<Rightarrow> env \<Rightarrow> media_record \<Rightarrow> fetch_request" where
  "deleteMedia_fetch P e record =
     \<lparr>fr_url = createPresignedDeleteUrl (pf_crypto P) e (pf_now P) (rec_object_key record),
      fr_method = ''DELETE'',
      fr_headers = []\<rparr>"

definition handleDeleteMedia :: "platform \<Rightarrow> env \<Rightarrow> world \<Rightarrow> request \<Rightarrow> string \<Rightarrow> response \<times> world" where
  "handleDeleteMedia P e w request ident =
     (case find (\<lambda>r. rec_id r = ident) (db w) of
        None \<Rightarrow> (notFound, w)
      | Some record \<Rightarrow>
          (case pf_fetch P (deleteMedia_fetch P e record) of
             Inl err \<Rightarrow> (notFound, w)
           | Inr deleteResponse \<Rightarrow>
               if \<not> up_ok deleteResponse \<and> up_status deleteResponse \<noteq> 404 then (notFound, w)
               else if pf_d1_write_throws P then (notFound, w)
               else
                 let w1 = w\<lparr>db := filter (\<lambda>r. rec_id r \<noteq> ident) (db w)\<rparr>;
                     cacheKeyUrl = (req_url request)\<lparr>url_search := []\<rparr>;
                     w2 = w1\<lparr>cache := (cache w1)(url_toString cacheKeyUrl := None)\<rparr>
                 in (\<lparr>resp_status = 204, resp_headers = [], resp_body = NoBody\<rparr>, w2)))"

subsection \<open>\<^verbatim>\<open>src/routes/upload.ts\<close>\<close>

definition isPathSeparator :: "char \<Rightarrow> bool" where
  "isPathSeparator c \<longleftrightarrow> c = CHR 0x5C \<or> c = CHR ''/''"

definition isSafeChar :: "char \<Rightarrow> bool" where
  "isSafeChar c \<longleftrightarrow> isAlnum c \<or> c = CHR ''.'' \<or> c = CHR ''_'' \<or> c = CHR ''-''"

text \<open>\<^verbatim>\<open>s.slice(0, k)\<close>: a negative \<open>k\<close> counts from the end of the string.\<close>

definition slice0 :: "string \<Rightarrow> int \<Rightarrow> string" where
  "slice0 s k = (if k < 0 then take (nat (int (length s) + k)) s else take (nat k) s)"

definition sanitizeFilename :: "string \<Rightarrow> string" where
  "sanitizeFilename filename =
     (let name0 = last (split isPathSeparator filename);
          name1 = dropWhile (\<lambda>c. c = CHR ''.'') name0;
          name2 = map (\<lambda>c. if isSafeChar c then c else CHR ''_'') name1
      in if length name2 > 200 then
           let ext = last (split (\<lambda>c. c = CHR ''.'') name2);
               base = slice0 name2 (200 - int (length ext) - 1)
           in if ext \<noteq> [] then base @ ''.'' @ ext else base
         else name2)"

text \<open>\<^verbatim>\<open>INSERT INTO media\<close>: the statement fails when the primary key \<^verbatim>\<open>id\<close> or the
  unique \<^verbatim>\<open>object_key\<close> is taken, or when the database service fails.\<close>

definition d1_insert :: "platform \<Rightarrow> world \<Rightarrow> media_record \<Rightarrow> world option" where
  "d1_insert P w row =
     (if pf_d1_write_throws P
         \<or> list_ex (\<lambda>r. rec_id r = rec_id row \<or> rec_object_key r = rec_object_key row) (db w)
      then None
      else Some (w\<lparr>db := db w @ [row]\<rparr>))"

definition handleUploadInit :: "platform \<Rightarrow> env \<Rightarrow> world \<Rightarrow> request \<Rightarrow> response \<times> world" where
  "handleUploadInit P e w request =
     (case req_json request of
        Inl err \<Rightarrow> (notFound, w)
      | Inr body \<Rightarrow>
          if body_filename body = [] \<or> body_content_type body = [] \<or> body_total_bytes body = 0
          then (notFound, w)
          else
            let sanitizedFilename = sanitizeFilename (body_filename body)
            in if sanitizedFilename = [] then (notFound, w)
               else
                 let ident = pf_randomUUID P;
                     objectKey = ident @ ''-'' @ sanitizedFilename;
                     row = \<lparr>rec_id = ident,
                            rec_object_key = objectKey,
                            rec_filename = sanitizedFilename,
                            rec_content_type = body_content_type body,
                            rec_total_bytes = body_total_bytes body,
                            rec_checksum = (if body_checksum body = [] then None
                                            else Some (body_checksum body)),
                            rec_status = Pending,
                            rec_created_at = pf_datetime_now P,
                            rec_confirmed_at = None\<rparr>
                 in case d1_insert P w row of
                      None \<Rightarrow> (notFound, w)
                    | Some w1 \<Rightarrow>
                        let uploadUrl = createPresignedPutUrl (pf_crypto P) e (pf_now P) objectKey
                                          (body_content_type body) (body_total_bytes body)
                        in (jsonResponse
                              (JObj [(''id'', JStr ident),
                                     (''upload_url'', JStr uploadUrl),
                                     (''object_key'', JStr objectKey)]) 200,
                            w1))"

definition confirm_fetch :: "platform \<Rightarrow> env \<Rightarrow> media_record \<Rightarrow> fetch_request" where
  "confirm_fetch P e record =
     \<lparr>fr_url = createPresignedGetUrl (pf_crypto P) e (pf_now P) (rec_object_key record),
      fr_method = ''GET'',
      fr_headers = [(''Range'', ''bytes=0-0'')]\<rparr>"

definition d1_mark_complete :: "platform \<Rightarrow> world \<Rightarrow> string \<Rightarrow> world" where
  "d1_mark_complete P w ident =
     w\<lparr>db := map (\<lambda>r. if rec_id r = ident
                       then r\<lparr>rec_status := Complete, rec_confirmed_at := Some (pf_datetime_now P)\<rparr>
                       else r) (db w)\<rparr>"

definition handleUploadConfirm :: "platform \<Rightarrow> env \<Rightarrow> world \<Rightarrow> request \<Rightarrow> response \<times> world" where
  "handleUploadConfirm P e w request =
     (case req_json request of
        Inl message \<Rightarrow>
          (jsonResponse (JObj [(''error'', JStr (''JSON parse error: '' @ message))]) 200, w)
      | Inr body \<Rightarrow>
          if body_id body = [] then (jsonResponse (JObj [(''error'', JStr ''Missing ID'')]) 200, w)
          else
            case find (\<lambda>r. rec_id r = body_id body \<and> rec_status r = Pending) (db w) of
              None \<Rightarrow>
                (jsonResponse
                   (JObj [(''error'', JStr ''Record not found or not pending''),
                          (''id'', JStr (body_id body))]) 200,
                 w)
            | Some record \<Rightarrow>
                (case pf_fetch P (confirm_fetch P e record) of
                   Inl message \<Rightarrow>
                     (jsonResponse
                        (JObj [(''success'', JBool False),
                               (''error'', JStr (''B2 verification request threw: '' @ message)),
                               (''debug'', JObj [(''checkUrl'', JStr (fr_url (confirm_fetch P e record)))])])
                        200,
                      w)
                 | Inr checkResponse \<Rightarrow>
                     if \<not> up_ok checkResponse \<and> up_status checkResponse \<noteq> 206 then
                       (jsonResponse
                          (JObj [(''success'', JBool False),
                                 (''error'', JStr (''Object verification failed (B2 status ''
                                                  @ number_toString (up_status checkResponse) @ '')'')),
                                 (''debug'',
                                  JObj [(''checkUrl'', JStr (fr_url (confirm_fetch P e record))),
                                        (''status'', JNum (up_status checkResponse)),
                                        (''statusText'', JStr (up_statusText checkResponse))])])
                          200,
                        w)
                     else if pf_d1_write_throws P then (notFound, w)
                     else (jsonResponse (JObj [(''success'', JBool True)]) 200,
                           d1_mark_complete P w (body_id body))))"

subsection \<open>The list handlers\<close>

definition DEFAULT_LIMIT :: int where
  "DEFAULT_LIMIT = 20"

definition MAX_LIMIT :: int where
  "MAX_LIMIT = 100"

text \<open>\<^verbatim>\<open>url.searchParams.get\<close>: the value of the first \<^verbatim>\<open>name=value\<close> pair with that name
  (escapes in the two numeric parameters read here are not decoded).\<close>

definition queryPairs :: "string \<Rightarrow> (string \<times> string) list" where
  "queryPairs search =
     map (\<lambda>p. (takeWhile (\<lambda>c. c \<noteq> CHR ''='') p, drop 1 (dropWhile (\<lambda>c. c \<noteq> CHR ''='') p)))
       (filter (\<lambda>p. p \<noteq> []) (split (\<lambda>c. c = CHR ''&'') search))"

definition searchParams_get :: "url \<Rightarrow> string \<Rightarrow> string option" where
  "searchParams_get u name = map_of (queryPairs (url_search u)) name"

definition orDefault :: "string option \<Rightarrow> string \<Rightarrow> string" where
  "orDefault v d = (case v of None \<Rightarrow> d | Some s \<Rightarrow> if s = [] then d else s)"

definition listItem :: "media_record \<Rightarrow> json" where
  "listItem r =
     JObj [(''id'', JStr (rec_id r)),
           (''filename'', JStr (rec_filename r)),
           (''content_type'', JStr (rec_content_type r)),
           (''total_bytes'', JNum (rec_total_bytes r)),
           (''status'', JStr (case rec_status r of
                                Pending \<Rightarrow> ''pending'' | Complete \<Rightarrow> ''complete'' | Failed \<Rightarrow> ''failed'')),
           (''created_at'', JStr (rec_created_at r))]"

definition recordJson :: "media_record \<Rightarrow> json" where
  "recordJson r =
     JObj [(''id'', JStr (rec_id r)),
           (''object_key'', JStr (rec_object_key r)),
           (''filename'', JStr (rec_filename r)),
           (''content_type'', JStr (rec_content_type r)),
           (''total_bytes'', JNum (rec_total_bytes r)),
           (''checksum'', (case rec_checksum r of None \<Rightarrow> JNull | Some c \<Rightarrow> JStr c)),
           (''status'', JStr (case rec_status r of
                                Pending \<Rightarrow> ''pending'' | Complete \<Rightarrow> ''complete'' | Failed \<Rightarrow> ''failed'')),
           (''created_at'', JStr (rec_created_at r)),
           (''confirmed_at'', (case rec_confirmed_at r of None \<Rightarrow> JNull | Some c \<Rightarrow> JStr c))]"

definition handleListMedia :: "world \<Rightarrow> request \<Rightarrow> response" where
  "handleListMedia w request =
     (let page0 = parseInt (orDefault (searchParams_get (req_url request) ''page'') ''1'');
          limit0 = parseInt (orDefault (searchParams_get (req_url request) ''limit'')
                               (number_toString DEFAULT_LIMIT));
          page = (case page0 of None \<Rightarrow> 1 | Some p \<Rightarrow> if p < 1 then 1 else p);
          limit1 = (case limit0 of None \<Rightarrow> DEFAULT_LIMIT | Some l \<Rightarrow> if l < 1 then DEFAULT_LIMIT else l);
          limit = (if limit1 > MAX_LIMIT then MAX_LIMIT else limit1);
          offset = (page - 1) * limit;
          total = int (length (db w));
          items = take (nat limit) (drop (nat offset) (rev (sort_key rec_created_at (db w))))
      in jsonResponse
           (JObj [(''items'', JArr (map listItem items)),
                  (''page'', JNum page),
                  (''limit'', JNum limit),
                  (''total'', JNum total)]) 200)"

definition handleGetMediaDetails :: "world \<Rightarrow> string \<Rightarrow> response" where
  "handleGetMediaDetails w ident =
     (case find (\<lambda>r. rec_id r = ident) (db w) of
        None \<Rightarrow> notFound
      | Some record \<Rightarrow> jsonResponse (recordJson record) 200)"

subsection \<open>The router\<close>

text \<open>\<^verbatim>\<open>path.match(/^\/media\/([a-f0-9-]{36})$/)\<close> and its sibling for \<^verbatim>\<open>/list/\<close>: the
  captured identifier, when the path is the prefix followed by 36 characters of
  \<^verbatim>\<open>[a-f0-9-]\<close>.\<close>

definition isIdChar :: "char \<Rightarrow> bool" where
  "isIdChar c \<longleftrightarrow> (CHR ''a'' \<le> c \<and> c \<le> CHR ''f'') \<or> isDigit c \<or> c = CHR ''-''"

definition matchIdPath :: "string \<Rightarrow> string \<Rightarrow> string option" where
  "matchIdPath pre path =
     (if startsWith path pre \<and> length (drop (length pre) path) = 36
         \<and> list_all isIdChar (drop (length pre) path)
      then Some (drop (length pre) path) else None)"

definition routeNotFound :: "string \<Rightarrow> string \<Rightarrow> response" where
  "routeNotFound path method =
     \<lparr>resp_status = 404,
      resp_headers = [(''Content-Type'', ''application/json'')],
      resp_body = JsonBody
        (JObj [(''error'', JStr ''Route not found''),
               (''path'', JStr path),
               (''method'', JStr method),
               (''availableRoutes'',
                JArr [JStr ''POST /upload/new'', JStr ''POST /upload/confirm'',
                      JStr ''GET /media/:id'', JStr ''DELETE /media/:id'', JStr ''GET /list/''])])\<rparr>"

text \<open>The result of a request: the response, the world after it, and the cache write left
  to \<^verbatim>\<open>ctx.waitUntil\<close>.\<close>

record result =
  res_response :: response
  res_world :: world
  res_waitUntil_put :: "(string \<times> response) option"

definition done_with :: "response \<times> world \<Rightarrow> result" where
  "done_with rw = \<lparr>res_response = fst rw, res_world = snd rw, res_waitUntil_put = None\<rparr>"

definition handleRequest :: "platform \<Rightarrow> env \<Rightarrow> world \<Rightarrow> request \<Rightarrow> result" where
  "handleRequest P e w request =
     (let path = url_pathname (req_url request);
          method = req_method request
      in case (if method = ''GET'' then matchIdPath ''/media/'' path else None) of
           Some ident \<Rightarrow>
             (let g = handleGetMedia P e w request ident
              in \<lparr>res_response = gr_response g, res_world = w,
                  res_waitUntil_put = gr_waitUntil_put g\<rparr>)
         | None \<Rightarrow>
             if \<not> verifyAuth P e request then done_with (notFound, w)
             else if method = ''POST'' \<and> path = ''/upload/new''
               then done_with (handleUploadInit P e w request)
             else if method = ''POST'' \<and> path = ''/upload/confirm''
               then done_with (handleUploadConfirm P e w request)
             else
               case (if method = ''DELETE'' then matchIdPath ''/media/'' path else None) of
                 Some ident \<Rightarrow> done_with (handleDeleteMedia P e w request ident)
               | None \<Rightarrow>
                   if method = ''GET'' \<and> (path = ''/list'' \<or> path = ''/list/'')
                     then done_with (handleListMedia w request, w)
                   else
                     case (if method = ''GET'' then matchIdPath ''/list/'' path else None) of
                       Some ident \<Rightarrow> done_with (handleGetMediaDetails w ident, w)
                     | None \<Rightarrow> done_with (routeNotFound path method, w))"

section \<open>The contracts of the specification\<close>

text \<open>
  The signing-key derivation in the words of the specification: four nested keyed hashes,
  each keyed with the raw bytes of the one before.
\<close>

definition keyedHash :: "crypto \<Rightarrow> bytes \<Rightarrow> string \<Rightarrow> bytes" where
  "keyedHash C key text = sign C key (TextEncoder_encode text)"

definition deriveSigningKey_spec :: "crypto \<Rightarrow> string \<Rightarrow> string \<Rightarrow> string \<Rightarrow> string \<Rightarrow> bytes" where
  "deriveSigningKey_spec C secretKey dateStamp region service =
     keyedHash C
       (keyedHash C
         (keyedHash C
           (keyedHash C (TextEncoder_encode (''AWS4'' @ secretKey)) dateStamp)
           region)
         service)
       ''aws4_request''"








section \<open>Example inputs\<close>

text \<open>Concrete inputs on which the theorems below are instantiated. The stand-ins for the
  hash functions only need to be functions.\<close>

definition ex_env :: env where
  "ex_env =
     \<lparr>MASTER_PASSWORD = ''correct-horse'',
      S3_ACCESS_KEY_ID = ''AKIDEXAMPLE'',
      S3_SECRET_ACCESS_KEY = ''wJalrXUtnFEMI'',
      S3_BUCKET = ''media'',
      S3_ENDPOINT = ''s3.example.com'',
      S3_REGION = ''us-east-1''\<rparr>"

definition ex_crypto :: crypto where
  "ex_crypto = \<lparr>digest = (\<lambda>data. data), sign = (\<lambda>key data. key @ data)\<rparr>"

definition ex_platform :: "(string + upstream_response) \<Rightarrow> bool \<Rightarrow> platform" where
  "ex_platform upstream d1_throws =
     \<lparr>pf_crypto = ex_crypto,
      pf_now = ''2026-11-03T12:34:56.789Z'',
      pf_fetch = (\<lambda>fr. upstream),
      pf_randomUUID = ''123e4567-e89b-12d3-a456-426614174999'',
      pf_randomValues = [],
      pf_datetime_now = ''2026-11-03 12:34:56'',
      pf_d1_write_throws = d1_throws\<rparr>"

definition ex_upstream :: "int \<Rightarrow> string + upstream_response" where
  "ex_upstream st = Inr \<lparr>up_status = st, up_statusText = [], up_headers = [], up_body = []\<rparr>"

definition ex_id :: string where
  "ex_id = ''123e4567-e89b-12d3-a456-426614174000''"

definition ex_record :: "media_status \<Rightarrow> media_record" where
  "ex_record st =
     \<lparr>rec_id = ex_id,
      rec_object_key = ex_id @ ''-abc-def.png'',
      rec_filename = ''abc-def.png'',
      rec_content_type = ''image/png'',
      rec_total_bytes = 1024,
      rec_checksum = None,
      rec_status = st,
      rec_created_at = ''2026-11-03 12:00:00'',
      rec_confirmed_at = None\<rparr>"

definition ex_world :: "media_record list \<Rightarrow> world" where
  "ex_world rows = \<lparr>db = rows, cache = (\<lambda>key. None)\<rparr>"

definition ex_request :: "string \<Rightarrow> string \<Rightarrow> string \<Rightarrow> obj \<Rightarrow> request" where
  "ex_request method origin path hs =
     \<lparr>req_method = method,
      req_url = \<lparr>url_origin = origin, url_pathname = path, url_search = []\<rparr>,
      req_headers = hs,
      req_json = Inl ''no body''\<rparr>"

definition ex_json_request :: "string \<Rightarrow> string \<Rightarrow> json_body \<Rightarrow> request" where
  "ex_json_request method path b =
     \<lparr>req_method = method,
      req_url = \<lparr>url_origin = ''https://media.example.com'', url_pathname = path, url_search = []\<rparr>,
      req_headers = [(''Authorization'', ''Bearer correct-horse'')],
      req_json = Inr b\<rparr>"

definition ex_confirm_body :: json_body where
  "ex_confirm_body =
     \<lparr>body_filename = [], body_content_type = [], body_total_bytes = 0, body_checksum = [],
      body_id = ex_id\<rparr>"

definition ex_init_body :: json_body where
  "ex_init_body =
     \<lparr>body_filename = ''abc-def.png'', body_content_type = ''image/png'', body_total_bytes = 1024,
      body_checksum = [], body_id = []\<rparr>"

text \<open>The status of the record with a given identifier, if the table has one.\<close>

definition status_of :: "world \<Rightarrow> string \<Rightarrow> media_status option" where
  "status_of w ident = map_option rec_status (find (\<lambda>r. rec_id r = ident) (db w))"

text \<open>What one request may do to the status of one identifier: a record is pending after
  the request only if it was pending or absent before, and a record that became complete was
  pending and its existence probe was answered with 2xx or 206.\<close>

definition lifecycle_step :: "platform \<Rightarrow> env \<Rightarrow> world \<Rightarrow> world \<Rightarrow> string \<Rightarrow> bool" where
  "lifecycle_step P e w w' ident \<longleftrightarrow>
     (status_of w' ident = Some Pending \<longrightarrow>
        status_of w ident = Some Pending \<or> status_of w ident = None)
   \<and> (status_of w' ident = Some Complete \<and> status_of w ident \<noteq> Some Complete \<longrightarrow>
        (\<exists>row up.
           find (\<lambda>r. rec_id r = ident) (db w) = Some row
           \<and> rec_status row = Pending
           \<and> pf_fetch P (confirm_fetch P e row) = Inr up
           \<and> (up_ok up \<or> up_status up = 206)))"



definition ex_ranged_get :: "string \<Rightarrow> string \<Rightarrow> request" where
  "ex_ranged_get search rangeHeader =
     \<lparr>req_method = ''GET'',
      req_url = \<lparr>url_origin = ''https://media.example.com'', url_pathname = ''/media/'' @ ex_id,
                 url_search = search\<rparr>,
      req_headers = [(''Range'', rangeHeader)],
      req_json = Inl ''no body''\<rparr>"

text \<open>The cache key in the words of the specification: the address of the object (here with
  the origin the request arrived at) and, for a range request, the normalised
  \<^verbatim>\<open>start-end\<close> window; nothing of the query, the clock or the signature.\<close>

definition stableKey :: "string \<Rightarrow> string \<Rightarrow> (int \<times> int) option \<Rightarrow> string" where
  "stableKey origin ident window =
     origin @ ''/media/'' @ ident
     @ (case window of None \<Rightarrow> [] | Some r \<Rightarrow> ''?range='' @ rangeText r)"


















section \<open>Signing-key derivation\<close>

text \<open>
  Claim C1. For every secret key, date stamp, region and service, \<^verbatim>\<open>getSignatureKey\<close> is the
  four-stage chain HMAC(HMAC(HMAC(HMAC("AWS4" + secretKey, dateStamp), region), service),
  "aws4_request"), and the key of each later stage is the byte buffer the stage before
  returned: no hexadecimal rendering (\<^verbatim>\<open>bufferToHex\<close>) lies between two stages.
\<close>

theorem getSignatureKey_is_four_stage_chain:
  "getSignatureKey C secretKey dateStamp region service =
     deriveSigningKey_spec C secretKey dateStamp region service
   \<and> getSignatureKey C secretKey dateStamp region service =
       sign C
         (sign C
           (sign C
             (sign C (TextEncoder_encode (''AWS4'' @ secretKey)) (TextEncoder_encode dateStamp))
             (TextEncoder_encode region))
           (TextEncoder_encode service))
         (TextEncoder_encode ''aws4_request'')"
  by (simp add: getSignatureKey_def deriveSigningKey_spec_def keyedHash_def hmacSha256_def Let_def)

section \<open>The range parser\<close>

















section \<open>File name sanitisation and upload initiation\<close>

lemma split_not_empty: "split p s \<noteq> []"
  by (induction s) (auto split: list.splits)

lemma set_split_subset: "w \<in> set (split p s) \<Longrightarrow> set w \<subseteq> set s"
proof (induction s arbitrary: w)
  case Nil
  then show ?case by simp
next
  case (Cons c cs)
  show ?case
  proof (cases "p c")
    case True
    with Cons show ?thesis by auto
  next
    case False
    obtain v vs where sp: "split p cs = v # vs"
      using split_not_empty[of p cs] by (cases "split p cs") auto
    with False Cons.prems have "w = c # v \<or> w \<in> set vs" by simp
    then show ?thesis
    proof
      assume "w = c # v"
      moreover have "set v \<subseteq> set cs" using Cons.IH[of v] sp by simp
      ultimately show ?thesis by auto
    next
      assume "w \<in> set vs"
      then have "set w \<subseteq> set cs" using Cons.IH[of w] sp by simp
      then show ?thesis by auto
    qed
  qed
qed

lemma set_last_split: "set (last (split p s)) \<subseteq> set s"
  using set_split_subset[of "last (split p s)" p s] split_not_empty[of p s] by simp

lemma set_slice0: "set (slice0 s k) \<subseteq> set s"
  by (auto simp: slice0_def dest: in_set_takeD)

lemma isSafeChar_underscore: "isSafeChar (CHR ''_'')"
  by (simp add: isSafeChar_def)

lemma isSafeChar_dot: "isSafeChar (CHR ''.'')"
  by (simp add: isSafeChar_def)

lemma isSafeChar_not_separator: "isSafeChar c \<Longrightarrow> \<not> isPathSeparator c \<and> c \<noteq> CHR '' ''"
  by (auto simp: isSafeChar_def isPathSeparator_def isAlnum_def isDigit_def isUpper_def isLower_def)

lemma sanitizeFilename_safe_chars: "list_all isSafeChar (sanitizeFilename filename)"
proof -
  define name1 where "name1 = dropWhile (\<lambda>c. c = CHR ''.'') (last (split isPathSeparator filename))"
  define name2 where "name2 = map (\<lambda>c. if isSafeChar c then c else CHR ''_'') name1"
  have safe2: "\<forall>c\<in>set name2. isSafeChar c"
    by (auto simp: name2_def isSafeChar_underscore)
  have ext: "\<forall>c\<in>set (last (split (\<lambda>c. c = CHR ''.'') name2)). isSafeChar c"
    using safe2 set_last_split[of "\<lambda>c. c = CHR ''.''" name2] by blast
  have base: "\<forall>c\<in>set (slice0 name2 k). isSafeChar c" for k
    using safe2 set_slice0[of name2 k] by blast
  show ?thesis
    unfolding sanitizeFilename_def Let_def list_all_iff
    using safe2 ext base isSafeChar_dot
    by (auto simp: name2_def[symmetric] name1_def[symmetric])
qed

lemma handleUploadInit_stored_key:
  assumes "handleUploadInit P e w request = (resp, w')" and "w' \<noteq> w"
  shows "\<exists>body row. req_json request = Inr body
           \<and> sanitizeFilename (body_filename body) \<noteq> []
           \<and> db w' = db w @ [row]
           \<and> rec_id row = pf_randomUUID P
           \<and> rec_status row = Pending
           \<and> rec_object_key row = pf_randomUUID P @ ''-'' @ sanitizeFilename (body_filename body)"
  using assms
  by (auto simp: handleUploadInit_def d1_insert_def Let_def split: sum.splits if_splits option.splits)

lemma handleUploadInit_rejects_empty:
  "req_json request = Inr body \<Longrightarrow> sanitizeFilename (body_filename body) = []
     \<Longrightarrow> handleUploadInit P e w request = (notFound, w)"
  by (simp add: handleUploadInit_def Let_def)

text \<open>
  Claim C10. \<^verbatim>\<open>sanitizeFilename\<close> returns only characters of \<^verbatim>\<open>[A-Za-z0-9._-]\<close> (lemma
  \<open>sanitizeFilename_safe_chars\<close>), and \<^verbatim>\<open>handleUploadInit\<close> rejects an empty sanitised
  name and stores the identifier, a hyphen and the sanitised name as object key (lemmas
  \<open>handleUploadInit_rejects_empty\<close> and \<open>handleUploadInit_stored_key\<close>). The claim also says
  that the sanitised name never begins with a dot. The source removes leading dots
  (\<^verbatim>\<open>// Remove leading dots (hidden files)\<close>) but the length limit that follows can put one
  back: for a name of 202 characters whose extension has 199, the base is cut to nothing and
  the result is a dot followed by the extension.
\<close>

theorem sanitizeFilename_leading_dot_after_truncation:
  "sanitizeFilename (''ab.'' @ replicate 199 (CHR ''x'')) = CHR ''.'' # replicate 199 (CHR ''x'')
   \<and> hd (sanitizeFilename (''ab.'' @ replicate 199 (CHR ''x''))) = CHR ''.''"
  by code_simp

section \<open>Uniform failure responses\<close>

lemma find_None_list_ex: "find p xs = None \<longleftrightarrow> \<not> list_ex p xs"
  by (induction xs) auto

lemma handleRequest_public_get:
  assumes "req_method request = ''GET''"
    and "matchIdPath ''/media/'' (url_pathname (req_url request)) = Some ident"
  shows "res_response (handleRequest P e w request) = gr_response (handleGetMedia P e w request ident)"
  using assms by (simp add: handleRequest_def Let_def)

lemma handleRequest_unauthenticated:
  assumes "\<not> (req_method request = ''GET''
             \<and> matchIdPath ''/media/'' (url_pathname (req_url request)) \<noteq> None)"
    and "\<not> verifyAuth P e request"
  shows "handleRequest P e w request = done_with (notFound, w)"
  using assms by (auto simp: handleRequest_def Let_def split: option.splits)

lemma getMedia_no_complete_record:
  assumes "\<not> list_ex (\<lambda>r. rec_id r = ident \<and> rec_status r = Complete) (db w)"
  shows "gr_response (handleGetMedia P e w request ident) = notFound"
  using assms by (simp add: handleGetMedia_def getMedia_lookup_def find_None_list_ex[symmetric])

lemma getMedia_invalid_range:
  assumes "find (\<lambda>r. rec_id r = ident \<and> rec_status r = Complete) (db w) = Some record"
    and "headers_get (req_headers request) ''Range'' = Some h" and "h \<noteq> []"
    and "parseRangeHeader h (rec_total_bytes record) = None"
  shows "gr_response (handleGetMedia P e w request ident) = notFound"
  using assms by (simp add: handleGetMedia_def getMedia_lookup_def)

lemma getMedia_upstream_failure:
  assumes "getMedia_lookup w request ident = Some (record, parsedRange)"
    and "cache w (getMedia_cacheKey request parsedRange) = None"
    and "case pf_fetch P (getMedia_fetch P e record parsedRange) of
           Inl message \<Rightarrow> True
         | Inr up \<Rightarrow> \<not> up_ok up \<and> up_status up \<noteq> 206"
  shows "gr_response (handleGetMedia P e w request ident) = notFound"
  using assms by (auto simp: handleGetMedia_def Let_def split: sum.splits)

text \<open>
  Claim C7. On the public route \<^verbatim>\<open>GET /media/:id\<close> every failure gives the same response,
  \<^verbatim>\<open>notFound()\<close>, with status 404 and body \<^verbatim>\<open>{"error":"Not found"}\<close>: no complete record
  with the identifier (unknown, or not in status complete), a \<^verbatim>\<open>Range\<close> header that does
  not parse (invalid or multi-range), and, after a cache miss, an upstream \<^verbatim>\<open>fetch\<close> that
  throws or answers outside 2xx and 206. On every other route a request that fails
  authentication gets that same response, and the world is unchanged. The status is 404,
  never 401 or 403.
\<close>

theorem uniform_opaque_failure:
  "notFound =
     \<lparr>resp_status = 404,
      resp_headers = [(''Content-Type'', ''application/json'')],
      resp_body = JsonBody (JObj [(''error'', JStr ''Not found'')])\<rparr>
   \<and> (req_method request = ''GET''
        \<and> matchIdPath ''/media/'' (url_pathname (req_url request)) = Some ident
      \<longrightarrow>
        (\<not> list_ex (\<lambda>r. rec_id r = ident \<and> rec_status r = Complete) (db w)
           \<longrightarrow> res_response (handleRequest P e w request) = notFound)
      \<and> (find (\<lambda>r. rec_id r = ident \<and> rec_status r = Complete) (db w) = Some row
           \<and> headers_get (req_headers request) ''Range'' = Some h \<and> h \<noteq> []
           \<and> parseRangeHeader h (rec_total_bytes row) = None
           \<longrightarrow> res_response (handleRequest P e w request) = notFound)
      \<and> (getMedia_lookup w request ident = Some (row, parsedRange)
           \<and> cache w (getMedia_cacheKey request parsedRange) = None
           \<and> (case pf_fetch P (getMedia_fetch P e row parsedRange) of
                 Inl message \<Rightarrow> True
               | Inr up \<Rightarrow> \<not> up_ok up \<and> up_status up \<noteq> 206)
           \<longrightarrow> res_response (handleRequest P e w request) = notFound))
   \<and> (\<not> (req_method request = ''GET''
            \<and> matchIdPath ''/media/'' (url_pathname (req_url request)) \<noteq> None)
        \<and> \<not> verifyAuth P e request
      \<longrightarrow> res_response (handleRequest P e w request) = notFound
          \<and> res_world (handleRequest P e w request) = w)"
proof (intro conjI impI)
  show "notFound =
     \<lparr>resp_status = 404,
      resp_headers = [(''Content-Type'', ''application/json'')],
      resp_body = JsonBody (JObj [(''error'', JStr ''Not found'')])\<rparr>"
    by (simp add: notFound_def NOT_FOUND_BODY_def)
next
  assume "req_method request = ''GET''
        \<and> matchIdPath ''/media/'' (url_pathname (req_url request)) = Some ident"
    and "\<not> list_ex (\<lambda>r. rec_id r = ident \<and> rec_status r = Complete) (db w)"
  then show "res_response (handleRequest P e w request) = notFound"
    by (simp add: handleRequest_public_get getMedia_no_complete_record)
next
  assume "req_method request = ''GET''
        \<and> matchIdPath ''/media/'' (url_pathname (req_url request)) = Some ident"
    and "find (\<lambda>r. rec_id r = ident \<and> rec_status r = Complete) (db w) = Some row
           \<and> headers_get (req_headers request) ''Range'' = Some h \<and> h \<noteq> []
           \<and> parseRangeHeader h (rec_total_bytes row) = None"
  then show "res_response (handleRequest P e w request) = notFound"
    by (simp add: handleRequest_public_get getMedia_invalid_range)
next
  assume "req_method request = ''GET''
        \<and> matchIdPath ''/media/'' (url_pathname (req_url request)) = Some ident"
    and "getMedia_lookup w request ident = Some (row, parsedRange)
           \<and> cache w (getMedia_cacheKey request parsedRange) = None
           \<and> (case pf_fetch P (getMedia_fetch P e row parsedRange) of
                 Inl message \<Rightarrow> True
               | Inr up \<Rightarrow> \<not> up_ok up \<and> up_status up \<noteq> 206)"
  then show "res_response (handleRequest P e w request) = notFound"
    using getMedia_upstream_failure[of w request ident row parsedRange P e]
    by (simp add: handleRequest_public_get)
next
  assume a: "\<not> (req_method request = ''GET''
            \<and> matchIdPath ''/media/'' (url_pathname (req_url request)) \<noteq> None)
        \<and> \<not> verifyAuth P e request"
  then have "handleRequest P e w request = done_with (notFound, w)"
    by (intro handleRequest_unauthenticated) simp_all
  then show "res_response (handleRequest P e w request) = notFound"
    and "res_world (handleRequest P e w request) = w"
    by (simp_all add: done_with_def)
qed



theorem uniform_opaque_failure_witness:
  "(req_method (ex_request ''GET'' ''https://media.example.com'' (''/media/'' @ ex_id) []) = ''GET''
    \<and> matchIdPath ''/media/''
          (url_pathname (req_url (ex_request ''GET'' ''https://media.example.com'' (''/media/'' @ ex_id) [])))
        = Some ex_id
    \<and> \<not> list_ex (\<lambda>r. rec_id r = ex_id \<and> rec_status r = Complete) (db (ex_world [ex_record Pending]))
    \<and> res_response
          (handleRequest (ex_platform (ex_upstream 200) False) ex_env (ex_world [ex_record Pending])
             (ex_request ''GET'' ''https://media.example.com'' (''/media/'' @ ex_id) []))
        = notFound)
   \<and> (headers_get
         (req_headers (ex_request ''GET'' ''https://media.example.com'' (''/media/'' @ ex_id)
                         [(''Range'', ''bytes=10-5'')])) ''Range'' = Some ''bytes=10-5''
      \<and> find (\<lambda>r. rec_id r = ex_id \<and> rec_status r = Complete) (db (ex_world [ex_record Complete]))
          = Some (ex_record Complete)
      \<and> parseRangeHeader ''bytes=10-5'' (rec_total_bytes (ex_record Complete)) = None
      \<and> res_response
          (handleRequest (ex_platform (ex_upstream 200) False) ex_env (ex_world [ex_record Complete])
             (ex_request ''GET'' ''https://media.example.com'' (''/media/'' @ ex_id)
                [(''Range'', ''bytes=10-5'')]))
        = notFound)
   \<and> (getMedia_lookup (ex_world [ex_record Complete])
         (ex_request ''GET'' ''https://media.example.com'' (''/media/'' @ ex_id) []) ex_id
        = Some (ex_record Complete, None)
      \<and> res_response
          (handleRequest (ex_platform (ex_upstream 500) False) ex_env (ex_world [ex_record Complete])
             (ex_request ''GET'' ''https://media.example.com'' (''/media/'' @ ex_id) []))
        = notFound)
   \<and> (\<not> verifyAuth (ex_platform (ex_upstream 200) False) ex_env
           (ex_request ''DELETE'' ''https://media.example.com'' (''/media/'' @ ex_id) [])
      \<and> res_response
          (handleRequest (ex_platform (ex_upstream 200) False) ex_env (ex_world [ex_record Complete])
             (ex_request ''DELETE'' ''https://media.example.com'' (''/media/'' @ ex_id) []))
        = notFound)"
proof -
  let ?get = "ex_request ''GET'' ''https://media.example.com'' (''/media/'' @ ex_id) []"
  let ?ranged = "ex_request ''GET'' ''https://media.example.com'' (''/media/'' @ ex_id)
                   [(''Range'', ''bytes=10-5'')]"
  let ?delete = "ex_request ''DELETE'' ''https://media.example.com'' (''/media/'' @ ex_id) []"
  let ?P = "ex_platform (ex_upstream 200) False"
  have g1: "req_method ?get = ''GET''" by (simp add: ex_request_def)
  have g2: "matchIdPath ''/media/'' (url_pathname (req_url ?get)) = Some ex_id" by code_simp
  have g3: "\<not> list_ex (\<lambda>r. rec_id r = ex_id \<and> rec_status r = Complete) (db (ex_world [ex_record Pending]))"
    by (simp add: ex_world_def ex_record_def)
  have r1: "req_method ?ranged = ''GET''" by (simp add: ex_request_def)
  have r2: "matchIdPath ''/media/'' (url_pathname (req_url ?ranged)) = Some ex_id" by code_simp
  have r3: "headers_get (req_headers ?ranged) ''Range'' = Some ''bytes=10-5''" by code_simp
  have r4: "find (\<lambda>r. rec_id r = ex_id \<and> rec_status r = Complete) (db (ex_world [ex_record Complete]))
          = Some (ex_record Complete)"
    by (simp add: ex_world_def ex_record_def)
  have r5: "parseRangeHeader ''bytes=10-5'' (rec_total_bytes (ex_record Complete)) = None" by code_simp
  have u1: "getMedia_lookup (ex_world [ex_record Complete]) ?get ex_id = Some (ex_record Complete, None)"
    by code_simp
  have u2: "cache (ex_world [ex_record Complete]) (getMedia_cacheKey ?get None) = None"
    by (simp add: ex_world_def)
  have u3: "(case pf_fetch (ex_platform (ex_upstream 500) False)
                 (getMedia_fetch (ex_platform (ex_upstream 500) False) ex_env (ex_record Complete) None) of
               Inl message \<Rightarrow> True
             | Inr up \<Rightarrow> \<not> up_ok up \<and> up_status up \<noteq> 206)"
    by (simp add: ex_platform_def ex_upstream_def up_ok_def)
  have d1: "\<not> (req_method ?delete = ''GET''
                \<and> matchIdPath ''/media/'' (url_pathname (req_url ?delete)) \<noteq> None)"
    by (simp add: ex_request_def)
  have d2: "\<not> verifyAuth ?P ex_env ?delete"
    by (simp add: verifyAuth_def ex_request_def headers_get_def)
  have c1: "res_response (handleRequest ?P ex_env (ex_world [ex_record Pending]) ?get) = notFound"
    using uniform_opaque_failure[where request = ?get and ident = ex_id and P = ?P and e = ex_env
        and w = "ex_world [ex_record Pending]"] g1 g2 g3 by blast
  have c2: "res_response (handleRequest ?P ex_env (ex_world [ex_record Complete]) ?ranged) = notFound"
    using uniform_opaque_failure[where request = ?ranged and ident = ex_id and P = ?P and e = ex_env
        and w = "ex_world [ex_record Complete]" and h = "''bytes=10-5''"
        and row = "ex_record Complete"] r1 r2 r3 r4 r5 by blast
  have c3: "res_response (handleRequest (ex_platform (ex_upstream 500) False) ex_env
               (ex_world [ex_record Complete]) ?get) = notFound"
    using uniform_opaque_failure[where request = ?get and ident = ex_id
        and P = "ex_platform (ex_upstream 500) False" and e = ex_env
        and w = "ex_world [ex_record Complete]" and parsedRange = None
        and row = "ex_record Complete"] g1 g2 u1 u2 u3 by blast
  have c4: "res_response (handleRequest ?P ex_env (ex_world [ex_record Complete]) ?delete) = notFound"
    using uniform_opaque_failure[where request = ?delete and P = ?P and e = ex_env
        and w = "ex_world [ex_record Complete]"] d1 d2 by blast
  show ?thesis
    using g1 g2 g3 c1 r3 r4 r5 c2 u1 c3 d2 c4 by blast
qed

section \<open>The life cycle of a record\<close>

lemma find_append_one:
  "find p (xs @ [x]) = (case find p xs of Some y \<Rightarrow> Some y | None \<Rightarrow> if p x then Some x else None)"
  by (induction xs) auto

lemma find_filter_other:
  "find (\<lambda>r. rec_id r = i) (filter (\<lambda>r. rec_id r \<noteq> ident) rows) =
     (if i = ident then None else find (\<lambda>r. rec_id r = i) rows)"
  by (induction rows) auto

lemma find_map_mark:
  "find (\<lambda>r. rec_id r = i)
     (map (\<lambda>r. if rec_id r = ident then r\<lparr>rec_status := Complete, rec_confirmed_at := c\<rparr> else r) rows) =
   (case find (\<lambda>r. rec_id r = i) rows of
      None \<Rightarrow> None
    | Some r \<Rightarrow> Some (if i = ident then r\<lparr>rec_status := Complete, rec_confirmed_at := c\<rparr> else r))"
  by (induction rows) auto

lemma find_pending_is_row:
  assumes "distinct (map rec_id rows)"
    and "find (\<lambda>r. rec_id r = ident \<and> rec_status r = Pending) rows = Some row"
  shows "find (\<lambda>r. rec_id r = ident) rows = Some row"
  using assms
proof (induction rows)
  case Nil
  then show ?case by simp
next
  case (Cons r rows)
  show ?case
  proof (cases "rec_id r = ident")
    case True
    show ?thesis
    proof (cases "rec_status r = Pending")
      case p: True
      with True Cons.prems show ?thesis by simp
    next
      case p: False
      with True Cons.prems have "find (\<lambda>r. rec_id r = ident \<and> rec_status r = Pending) rows = Some row"
        by simp
      then have "row \<in> set rows" and "rec_id row = ident"
        by (auto simp: find_Some_iff)
      then have "ident \<in> rec_id ` set rows" by blast
      with True Cons.prems(1) have False by simp
      then show ?thesis ..
    qed
  next
    case False
    with Cons show ?thesis by simp
  qed
qed

lemma status_after_insert:
  assumes "\<not> list_ex (\<lambda>r. rec_id r = rec_id row) (db w)"
  shows "status_of (w\<lparr>db := db w @ [row]\<rparr>) i =
           (if i = rec_id row then Some (rec_status row) else status_of w i)"
proof -
  have "find (\<lambda>r. rec_id r = rec_id row) (db w) = None"
    using assms by (simp add: find_None_list_ex)
  then show ?thesis
    by (auto simp: status_of_def find_append_one split: option.splits)
qed

lemma status_of_absent:
  "\<not> list_ex (\<lambda>r. rec_id r = i) (db w) \<Longrightarrow> status_of w i = None"
  by (simp add: status_of_def find_None_list_ex[symmetric])

lemma status_after_mark:
  "status_of (d1_mark_complete P w ident) i =
     (if i = ident \<and> status_of w i \<noteq> None then Some Complete else status_of w i)"
  by (auto simp: status_of_def d1_mark_complete_def find_map_mark split: option.splits)

lemma status_after_delete:
  "status_of (w\<lparr>db := filter (\<lambda>r. rec_id r \<noteq> ident) (db w), cache := c\<rparr>) i =
     (if i = ident then None else status_of w i)"
  by (simp add: status_of_def find_filter_other)

lemma handleUploadInit_world:
  "snd (handleUploadInit P e w request) = w
   \<or> (\<exists>row. snd (handleUploadInit P e w request) = w\<lparr>db := db w @ [row]\<rparr>
         \<and> rec_status row = Pending
         \<and> \<not> list_ex (\<lambda>r. rec_id r = rec_id row) (db w))"
  by (auto simp: handleUploadInit_def d1_insert_def Let_def list_ex_iff split: sum.splits option.splits)

lemma handleUploadConfirm_world:
  "snd (handleUploadConfirm P e w request) = w
   \<or> (\<exists>row up ident.
         find (\<lambda>r. rec_id r = ident \<and> rec_status r = Pending) (db w) = Some row
         \<and> pf_fetch P (confirm_fetch P e row) = Inr up
         \<and> (up_ok up \<or> up_status up = 206)
         \<and> snd (handleUploadConfirm P e w request) = d1_mark_complete P w ident)"
  by (auto simp: handleUploadConfirm_def Let_def split: sum.splits option.splits)

lemma handleDeleteMedia_world:
  "snd (handleDeleteMedia P e w request ident) = w
   \<or> (\<exists>c. snd (handleDeleteMedia P e w request ident) =
             w\<lparr>db := filter (\<lambda>r. rec_id r \<noteq> ident) (db w), cache := c\<rparr>)"
  by (auto simp: handleDeleteMedia_def Let_def split: sum.splits option.splits)

lemma handleRequest_world:
  "res_world (handleRequest P e w request) = w
   \<or> res_world (handleRequest P e w request) = snd (handleUploadInit P e w request)
   \<or> res_world (handleRequest P e w request) = snd (handleUploadConfirm P e w request)
   \<or> (\<exists>ident. res_world (handleRequest P e w request) = snd (handleDeleteMedia P e w request ident))"
  by (auto simp: handleRequest_def Let_def done_with_def split: option.splits)

lemma confirm_fetch_shape:
  "fr_method (confirm_fetch P e row) = ''GET''"
  "fr_headers (confirm_fetch P e row) = [(''Range'', ''bytes=0-0'')]"
  "fr_url (confirm_fetch P e row) =
     createPresignedUrl (pf_crypto P) e (pf_now P) ''GET'' (rec_object_key row) []"
  by (simp_all add: confirm_fetch_def createPresignedGetUrl_def)

lemma lifecycle_same: "lifecycle_step P e w w ident"
  by (auto simp: lifecycle_step_def)

lemma lifecycle_init:
  "lifecycle_step P e w (snd (handleUploadInit P e w request)) ident"
  using handleUploadInit_world[of P e w request]
  by (auto simp: lifecycle_step_def status_after_insert status_of_absent split: if_splits)

lemma lifecycle_delete:
  "lifecycle_step P e w (snd (handleDeleteMedia P e w request i)) ident"
  using handleDeleteMedia_world[of P e w request i]
  by (auto simp: lifecycle_step_def status_after_delete split: if_splits)

lemma lifecycle_confirm:
  assumes "distinct (map rec_id (db w))"
  shows "lifecycle_step P e w (snd (handleUploadConfirm P e w request)) ident"
proof -
  consider "snd (handleUploadConfirm P e w request) = w"
    | row up i where "find (\<lambda>r. rec_id r = i \<and> rec_status r = Pending) (db w) = Some row"
        "pf_fetch P (confirm_fetch P e row) = Inr up" "up_ok up \<or> up_status up = 206"
        "snd (handleUploadConfirm P e w request) = d1_mark_complete P w i"
    using handleUploadConfirm_world[of P e w request] by blast
  then show ?thesis
  proof cases
    case 1
    then show ?thesis by (simp add: lifecycle_same)
  next
    case 2
    have row: "find (\<lambda>r. rec_id r = i) (db w) = Some row"
      by (rule find_pending_is_row[OF assms 2(1)])
    have pend: "rec_status row = Pending"
      using 2(1) by (auto simp: find_Some_iff)
    have st: "status_of w i = Some Pending"
      using row pend by (simp add: status_of_def)
    show ?thesis
      unfolding 2(4) lifecycle_step_def status_after_mark
      using row pend st 2(2,3) by auto
  qed
qed

text \<open>
  Claim C8. Whatever the request, a record ends in status complete without having been
  complete before only if it was pending and the existence probe of
  \<^verbatim>\<open>handleUploadConfirm\<close> succeeded: a presigned \<^verbatim>\<open>GET\<close> (not \<^verbatim>\<open>HEAD\<close>) with the header
  \<^verbatim>\<open>Range: bytes=0-0\<close> that the object store answered with a 2xx or 206 status. No request
  sets a record back to pending: a record that is pending afterwards was pending before or
  did not exist. The table's primary key (identifiers are distinct) is assumed; every request
  preserves it (lemma \<open>handleRequest_keeps_ids_distinct\<close>).
\<close>

theorem status_lifecycle:
  assumes "distinct (map rec_id (db w))"
  shows "(status_of (res_world (handleRequest P e w request)) ident = Some Pending \<longrightarrow>
            status_of w ident = Some Pending \<or> status_of w ident = None)
       \<and> (status_of (res_world (handleRequest P e w request)) ident = Some Complete
            \<and> status_of w ident \<noteq> Some Complete \<longrightarrow>
            (\<exists>row up.
               find (\<lambda>r. rec_id r = ident) (db w) = Some row
               \<and> rec_status row = Pending
               \<and> pf_fetch P (confirm_fetch P e row) = Inr up
               \<and> (up_ok up \<or> up_status up = 206)
               \<and> fr_method (confirm_fetch P e row) = ''GET''
               \<and> fr_headers (confirm_fetch P e row) = [(''Range'', ''bytes=0-0'')]
               \<and> fr_url (confirm_fetch P e row) =
                   createPresignedUrl (pf_crypto P) e (pf_now P) ''GET'' (rec_object_key row) []))"
proof -
  have "lifecycle_step P e w (res_world (handleRequest P e w request)) ident"
    using handleRequest_world[of P e w request]
  proof (elim disjE exE)
    assume "res_world (handleRequest P e w request) = w"
    then show ?thesis by (simp add: lifecycle_same)
  next
    assume "res_world (handleRequest P e w request) = snd (handleUploadInit P e w request)"
    then show ?thesis by (simp add: lifecycle_init)
  next
    assume "res_world (handleRequest P e w request) = snd (handleUploadConfirm P e w request)"
    then show ?thesis by (simp add: lifecycle_confirm[OF assms])
  next
    fix i
    assume "res_world (handleRequest P e w request) = snd (handleDeleteMedia P e w request i)"
    then show ?thesis by (simp add: lifecycle_delete)
  qed
  then show ?thesis
    unfolding lifecycle_step_def by (simp add: confirm_fetch_shape)
qed

lemma handleRequest_keeps_ids_distinct:
  assumes "distinct (map rec_id (db w))"
  shows "distinct (map rec_id (db (res_world (handleRequest P e w request))))"
proof -
  have init: "distinct (map rec_id (db (snd (handleUploadInit P e w request))))"
    using handleUploadInit_world[of P e w request]
  proof (elim disjE exE conjE)
    assume "snd (handleUploadInit P e w request) = w"
    then show ?thesis using assms by simp
  next
    fix row
    assume w': "snd (handleUploadInit P e w request) = w\<lparr>db := db w @ [row]\<rparr>"
      and fresh: "\<not> list_ex (\<lambda>r. rec_id r = rec_id row) (db w)"
    from fresh have "rec_id row \<notin> rec_id ` set (db w)" by (auto simp: list_ex_iff)
    then show ?thesis using assms w' by simp
  qed
  have conf: "distinct (map rec_id (db (snd (handleUploadConfirm P e w request))))"
  proof -
    have "map rec_id (db (d1_mark_complete P w i)) = map rec_id (db w)" for i
      by (simp add: d1_mark_complete_def comp_def if_distrib cong: if_cong)
    then show ?thesis using handleUploadConfirm_world[of P e w request] assms by auto
  qed
  have del: "distinct (map rec_id (db (snd (handleDeleteMedia P e w request i))))" for i
    using handleDeleteMedia_world[of P e w request i] assms by (auto simp: distinct_map_filter)
  show ?thesis
    using handleRequest_world[of P e w request]
  proof (elim disjE exE)
    assume "res_world (handleRequest P e w request) = w"
    then show ?thesis using assms by simp
  next
    assume "res_world (handleRequest P e w request) = snd (handleUploadInit P e w request)"
    then show ?thesis using init by simp
  next
    assume "res_world (handleRequest P e w request) = snd (handleUploadConfirm P e w request)"
    then show ?thesis using conf by simp
  next
    fix i
    assume "res_world (handleRequest P e w request) = snd (handleDeleteMedia P e w request i)"
    then show ?thesis using del by simp
  qed
qed


theorem status_lifecycle_witness:
  "distinct (map rec_id (db (ex_world [ex_record Pending])))
   \<and> status_of (ex_world [ex_record Pending]) ex_id = Some Pending
   \<and> status_of
         (res_world (handleRequest (ex_platform (ex_upstream 206) False) ex_env
                       (ex_world [ex_record Pending])
                       (ex_json_request ''POST'' ''/upload/confirm'' ex_confirm_body)))
         ex_id = Some Complete
   \<and> (\<exists>row up.
         find (\<lambda>r. rec_id r = ex_id) (db (ex_world [ex_record Pending])) = Some row
         \<and> rec_status row = Pending
         \<and> pf_fetch (ex_platform (ex_upstream 206) False)
               (confirm_fetch (ex_platform (ex_upstream 206) False) ex_env row) = Inr up
         \<and> (up_ok up \<or> up_status up = 206)
         \<and> fr_method (confirm_fetch (ex_platform (ex_upstream 206) False) ex_env row) = ''GET''
         \<and> fr_headers (confirm_fetch (ex_platform (ex_upstream 206) False) ex_env row)
             = [(''Range'', ''bytes=0-0'')])
   \<and> distinct (map rec_id (db (ex_world [])))
   \<and> status_of
         (res_world (handleRequest (ex_platform (ex_upstream 200) False) ex_env (ex_world [])
                       (ex_json_request ''POST'' ''/upload/new'' ex_init_body)))
         ''123e4567-e89b-12d3-a456-426614174999'' = Some Pending
   \<and> status_of (ex_world []) ''123e4567-e89b-12d3-a456-426614174999'' = None"
proof -
  let ?P = "ex_platform (ex_upstream 206) False"
  let ?w = "ex_world [ex_record Pending]"
  let ?r = "ex_json_request ''POST'' ''/upload/confirm'' ex_confirm_body"
  have d: "distinct (map rec_id (db ?w))" by (simp add: ex_world_def)
  have before: "status_of ?w ex_id = Some Pending"
    by (simp add: status_of_def ex_world_def ex_record_def)
  have auth: "verifyAuth ?P ex_env ?r" by code_simp
  have after: "status_of (res_world (handleRequest ?P ex_env ?w ?r)) ex_id = Some Complete"
    using auth
    by (simp add: handleRequest_def handleUploadConfirm_def ex_json_request_def ex_confirm_body_def
        ex_world_def ex_record_def ex_id_def ex_platform_def ex_upstream_def up_ok_def
        d1_mark_complete_def status_of_def done_with_def Let_def)
  have ne: "status_of ?w ex_id \<noteq> Some Complete" using before by simp
  have concl: "\<exists>row up.
         find (\<lambda>r. rec_id r = ex_id) (db ?w) = Some row
         \<and> rec_status row = Pending
         \<and> pf_fetch ?P (confirm_fetch ?P ex_env row) = Inr up
         \<and> (up_ok up \<or> up_status up = 206)
         \<and> fr_method (confirm_fetch ?P ex_env row) = ''GET''
         \<and> fr_headers (confirm_fetch ?P ex_env row) = [(''Range'', ''bytes=0-0'')]"
    using status_lifecycle[OF d, of ?P ex_env ?r ex_id] after ne by blast
  let ?Q = "ex_platform (ex_upstream 200) False"
  let ?i = "ex_json_request ''POST'' ''/upload/new'' ex_init_body"
  have d0: "distinct (map rec_id (db (ex_world [])))" by (simp add: ex_world_def)
  have auth': "verifyAuth ?Q ex_env ?i" by code_simp
  have clean: "sanitizeFilename ''abc-def.png'' = ''abc-def.png''" by code_simp
  have created: "status_of (res_world (handleRequest ?Q ex_env (ex_world []) ?i))
                   ''123e4567-e89b-12d3-a456-426614174999'' = Some Pending"
    using auth' clean
    by (simp add: handleRequest_def handleUploadInit_def ex_json_request_def ex_init_body_def
        ex_world_def ex_platform_def d1_insert_def status_of_def done_with_def Let_def)
  have absent: "status_of (ex_world []) ''123e4567-e89b-12d3-a456-426614174999'' = None"
    using status_lifecycle[OF d0, of ?Q ex_env ?i "''123e4567-e89b-12d3-a456-426614174999''"] created
    by (simp add: status_of_def ex_world_def)
  show ?thesis using d before after concl d0 created absent by blast
qed

section \<open>Deletion\<close>






section \<open>Cache keys\<close>

lemma getMedia_cacheKey_parts:
  "getMedia_cacheKey request window =
     url_origin (req_url request) @ url_pathname (req_url request)
     @ (case window of None \<Rightarrow> [] | Some r \<Rightarrow> ''?range='' @ rangeText r)"
  by (cases window) (simp_all add: getMedia_cacheKey_def url_toString_def Let_def)

lemma handleGetMedia_put_key:
  assumes "getMedia_lookup w request ident = Some (row, window)"
  shows "gr_waitUntil_put (handleGetMedia P e w request ident) = None
       \<or> map_option fst (gr_waitUntil_put (handleGetMedia P e w request ident))
           = Some (getMedia_cacheKey request window)"
  using assms by (auto simp: handleGetMedia_def Let_def split: option.splits sum.splits)

lemma handleGetMedia_hit:
  assumes "getMedia_lookup w request ident = Some (row, window)"
    and "cache w (getMedia_cacheKey request window) = Some cached"
  shows "gr_response (handleGetMedia P e w request ident) =
           cached\<lparr>resp_headers := headers_set (resp_headers cached) ''X-Worker-Cache'' ''HIT''\<rparr>"
  using assms by (simp add: handleGetMedia_def Let_def)

text \<open>
  Claim C6, as amended. Two requests that arrive at the same origin for the same media
  identifier, and whose \<^verbatim>\<open>Range\<close> headers parse to the same effective window (or that both
  carry none), make \<^verbatim>\<open>handleGetMedia\<close> derive the same cache key, whatever their query
  strings and whatever the clock, the credentials and the signature of the presigned
  upstream URL of either run. The key is the origin, the path \<^verbatim>\<open>/media/<id>\<close> and, for a
  range request, \<^verbatim>\<open>?range=start-end\<close>: no signature or authentication field. It is the
  only key a run writes to, and a response cached under it is what the other run serves.
\<close>

theorem cache_key_stable:
  assumes "url_origin (req_url r1) = origin" and "url_origin (req_url r2) = origin"
    and "url_pathname (req_url r1) = ''/media/'' @ ident"
    and "url_pathname (req_url r2) = ''/media/'' @ ident"
    and "getMedia_lookup w1 r1 ident = Some (row1, window)"
    and "getMedia_lookup w2 r2 ident = Some (row2, window)"
  shows "getMedia_cacheKey r1 window = getMedia_cacheKey r2 window
       \<and> getMedia_cacheKey r1 window = stableKey origin ident window
       \<and> (gr_waitUntil_put (handleGetMedia P1 e1 w1 r1 ident) = None
          \<or> map_option fst (gr_waitUntil_put (handleGetMedia P1 e1 w1 r1 ident))
              = Some (stableKey origin ident window))
       \<and> (gr_waitUntil_put (handleGetMedia P2 e2 w2 r2 ident) = None
          \<or> map_option fst (gr_waitUntil_put (handleGetMedia P2 e2 w2 r2 ident))
              = Some (stableKey origin ident window))
       \<and> (case cache w2 (stableKey origin ident window) of
            None \<Rightarrow> True
          | Some cached \<Rightarrow>
              gr_response (handleGetMedia P2 e2 w2 r2 ident) =
                cached\<lparr>resp_headers := headers_set (resp_headers cached) ''X-Worker-Cache'' ''HIT''\<rparr>)"
proof -
  have k1: "getMedia_cacheKey r1 window = stableKey origin ident window"
    using assms(1,3) by (simp add: getMedia_cacheKey_parts stableKey_def)
  have k2: "getMedia_cacheKey r2 window = stableKey origin ident window"
    using assms(2,4) by (simp add: getMedia_cacheKey_parts stableKey_def)
  have p1: "gr_waitUntil_put (handleGetMedia P1 e1 w1 r1 ident) = None
          \<or> map_option fst (gr_waitUntil_put (handleGetMedia P1 e1 w1 r1 ident))
              = Some (stableKey origin ident window)"
    using handleGetMedia_put_key[OF assms(5), of P1 e1] k1 by simp
  have p2: "gr_waitUntil_put (handleGetMedia P2 e2 w2 r2 ident) = None
          \<or> map_option fst (gr_waitUntil_put (handleGetMedia P2 e2 w2 r2 ident))
              = Some (stableKey origin ident window)"
    using handleGetMedia_put_key[OF assms(6), of P2 e2] k2 by simp
  have hit: "(case cache w2 (stableKey origin ident window) of
            None \<Rightarrow> True
          | Some cached \<Rightarrow>
              gr_response (handleGetMedia P2 e2 w2 r2 ident) =
                cached\<lparr>resp_headers := headers_set (resp_headers cached) ''X-Worker-Cache'' ''HIT''\<rparr>)"
    using handleGetMedia_hit[OF assms(6), of _ P2 e2] k2 by (simp split: option.splits)
  show ?thesis using k1 k2 p1 p2 hit by simp
qed

text \<open>
  Claim C6 as first stated asks nothing of the origin, but the key starts from
  \<^verbatim>\<open>request.url\<close>: the same identifier requested through two host names, without a
  \<^verbatim>\<open>Range\<close> header, gives two keys.
\<close>

theorem cache_key_origin_counterexample:
  "getMedia_lookup (ex_world [ex_record Complete])
       (ex_request ''GET'' ''https://media.example.com'' (''/media/'' @ ex_id) []) ex_id
     = Some (ex_record Complete, None)
   \<and> getMedia_lookup (ex_world [ex_record Complete])
       (ex_request ''GET'' ''https://cdn.example.org'' (''/media/'' @ ex_id) []) ex_id
     = Some (ex_record Complete, None)
   \<and> map_option fst
       (gr_waitUntil_put
          (handleGetMedia (ex_platform (ex_upstream 200) False) ex_env (ex_world [ex_record Complete])
             (ex_request ''GET'' ''https://media.example.com'' (''/media/'' @ ex_id) []) ex_id))
     = Some ''https://media.example.com/media/123e4567-e89b-12d3-a456-426614174000''
   \<and> map_option fst
       (gr_waitUntil_put
          (handleGetMedia (ex_platform (ex_upstream 200) False) ex_env (ex_world [ex_record Complete])
             (ex_request ''GET'' ''https://cdn.example.org'' (''/media/'' @ ex_id) []) ex_id))
     = Some ''https://cdn.example.org/media/123e4567-e89b-12d3-a456-426614174000''
   \<and> getMedia_cacheKey (ex_request ''GET'' ''https://media.example.com'' (''/media/'' @ ex_id) []) None
     \<noteq> getMedia_cacheKey (ex_request ''GET'' ''https://cdn.example.org'' (''/media/'' @ ex_id) []) None"
  by (simp add: handleGetMedia_def getMedia_lookup_def getMedia_cacheKey_def url_toString_def
      headers_get_def ex_request_def ex_world_def ex_record_def ex_platform_def ex_upstream_def
      ex_id_def up_ok_def Let_def)


theorem cache_key_stable_witness:
  "getMedia_lookup (ex_world [ex_record Complete]) (ex_ranged_get ''download=1'' ''bytes=0-'') ex_id
     = Some (ex_record Complete, Some (0, 1023))
   \<and> getMedia_lookup (ex_world [ex_record Complete]) (ex_ranged_get ''t=1730635200'' ''bytes=0-2000'') ex_id
     = Some (ex_record Complete, Some (0, 1023))
   \<and> getMedia_cacheKey (ex_ranged_get ''download=1'' ''bytes=0-'') (Some (0, 1023))
     = getMedia_cacheKey (ex_ranged_get ''t=1730635200'' ''bytes=0-2000'') (Some (0, 1023))
   \<and> getMedia_cacheKey (ex_ranged_get ''download=1'' ''bytes=0-'') (Some (0, 1023))
     = ''https://media.example.com/media/123e4567-e89b-12d3-a456-426614174000?range=0-1023''"
proof -
  let ?w = "ex_world [ex_record Complete]"
  let ?r1 = "ex_ranged_get ''download=1'' ''bytes=0-''"
  let ?r2 = "ex_ranged_get ''t=1730635200'' ''bytes=0-2000''"
  have o1: "url_origin (req_url ?r1) = ''https://media.example.com''"
    and o2: "url_origin (req_url ?r2) = ''https://media.example.com''"
    and p1: "url_pathname (req_url ?r1) = ''/media/'' @ ex_id"
    and p2: "url_pathname (req_url ?r2) = ''/media/'' @ ex_id"
    by (simp_all add: ex_ranged_get_def)
  have l1: "getMedia_lookup ?w ?r1 ex_id = Some (ex_record Complete, Some (0, 1023))" by code_simp
  have l2: "getMedia_lookup ?w ?r2 ex_id = Some (ex_record Complete, Some (0, 1023))" by code_simp
  have k: "stableKey ''https://media.example.com'' ex_id (Some (0, 1023))
             = ''https://media.example.com/media/123e4567-e89b-12d3-a456-426614174000?range=0-1023''"
    by code_simp
  note stable = cache_key_stable[OF o1 o2 p1 p2 l1 l2,
      of "ex_platform (ex_upstream 200) False" ex_env "ex_platform (ex_upstream 200) False" ex_env]
  have same: "getMedia_cacheKey ?r1 (Some (0, 1023)) = getMedia_cacheKey ?r2 (Some (0, 1023))"
    using stable by (rule conjunct1)
  have shape: "getMedia_cacheKey ?r1 (Some (0, 1023))
                = stableKey ''https://media.example.com'' ex_id (Some (0, 1023))"
    using stable by (elim conjE)
  show ?thesis
    using l1 l2 same shape k by simp
qed

section \<open>Percent-encoding and hexadecimal rendering\<close>














lemma encodeURIComponent_append:
  "encodeURIComponent (a @ b) = encodeURIComponent a @ encodeURIComponent b"
  by (simp add: encodeURIComponent_def)


lemma encodeURIComponent_unreserved:
  "list_all uriUnreserved s \<Longrightarrow> encodeURIComponent s = s"
  by (induction s) (simp_all add: encodeURIComponent_def encodeChar_def)



lemma bufferToHex_length: "length (bufferToHex buffer) = 2 * length buffer"
  by (induction buffer) (simp_all add: bufferToHex_def byteToHex_def)








section \<open>The canonical request\<close>


lemma join_Nil_Cons: "xs \<noteq> [] \<Longrightarrow> join sep ([] # xs) = sep @ join sep xs"
  by (cases xs) simp_all




















section \<open>The query string of a presigned URL\<close>



lemma join_snoc: "xs \<noteq> [] \<Longrightarrow> join sep (xs @ [y]) = join sep xs @ sep @ y"
  by (induction sep xs rule: join.induct) simp_all









section \<open>Round trip of a presigned upload URL\<close>















end
